theory Spec2Isabelle
  imports Main
begin

section \<open>Values, responses and requests\<close>

text \<open>
  The handlers of \<^verbatim>\<open>routes/auth.js\<close>, \<^verbatim>\<open>routes/contatos.js\<close>, \<^verbatim>\<open>routes/empresas.js\<close> and the
  middleware of \<^verbatim>\<open>middleware/auth.js\<close> answer with \<^verbatim>\<open>res.status(n).json({...})\<close>. A response is
  a status code together with a JSON body; an object keeps its fields in the order the
  source writes them. \<^verbatim>\<open>res.json\<close> without \<^verbatim>\<open>status\<close> answers 200.
\<close>

datatype json =
    JNull
  | JBool bool
  | JNum int
  | JStr string
  | JArr "json list"
  | JObj "(string \<times> json) list"

datatype resposta = Resposta (status: nat) (corpo: json)

text \<open>
  Strings are lists of code units. The accented letters of the messages are written by
  their code unit (all of them are below 256).
\<close>

abbreviation a_til :: char where "a_til \<equiv> CHR 0xE3"
abbreviation a_agudo :: char where "a_agudo \<equiv> CHR 0xE1"
abbreviation i_agudo :: char where "i_agudo \<equiv> CHR 0xED"
abbreviation o_agudo :: char where "o_agudo \<equiv> CHR 0xF3"

text \<open>The error shape shared by every handler: \<^verbatim>\<open>{ sucesso: false, mensagem: m }\<close>.\<close>

definition falha :: "nat \<Rightarrow> string \<Rightarrow> resposta" where
  "falha codigo m = Resposta codigo (JObj [(''sucesso'', JBool False), (''mensagem'', JStr m)])"

text \<open>The names of the fields of a JSON object, and the lookup of one field.\<close>

fun campos :: "json \<Rightarrow> string list" where
  "campos (JObj kvs) = map fst kvs"
| "campos _ = []"

fun campo :: "json \<Rightarrow> string \<Rightarrow> json option" where
  "campo (JObj kvs) k = map_of kvs k"
| "campo _ k = None"

text \<open>
  A request as the handlers read it: \<^verbatim>\<open>req.cookies\<close> (undefined when no cookie parser ran),
  \<^verbatim>\<open>req.headers\<close> (names in lower case), \<^verbatim>\<open>req.body\<close> and \<^verbatim>\<open>req.query\<close>. The fields of the
  body are strings, as the OpenAPI annotations of the routes declare them; a field that is
  absent reads \<^verbatim>\<open>undefined\<close>, here \<open>None\<close>. The registration handler is the exception: it
  is modelled on the body as \<^verbatim>\<open>express.json()\<close> parsed it, where a field holds any JSON
  value (see there).
\<close>

record pedido =
  cookies :: "(string \<rightharpoonup> string) option"
  headers :: "string \<rightharpoonup> string"
  body :: "string \<rightharpoonup> string"
  query :: "string \<rightharpoonup> string"

text \<open>JavaScript truthiness of a value that is a string or undefined: \<^verbatim>\<open>!v\<close> is \<open>\<not> truthy v\<close>.\<close>

definition truthy :: "string option \<Rightarrow> bool" where
  "truthy v = (case v of None \<Rightarrow> False | Some s \<Rightarrow> s \<noteq> [])"

text \<open>The string held by a value already known to be truthy.\<close>

definition texto :: "string option \<Rightarrow> string" where
  "texto v = (case v of None \<Rightarrow> [] | Some s \<Rightarrow> s)"

subsection \<open>String operations of the runtime\<close>

text \<open>\<^verbatim>\<open>s.startsWith(p)\<close>\<close>

definition startsWith :: "string \<Rightarrow> string \<Rightarrow> bool" where
  "startsWith s p = (take (length p) s = p)"

text \<open>
  \<^verbatim>\<open>s.split(sep)\<close> for a separator of one character: the pieces between the separators,
  empty pieces included; the empty string gives one empty piece.
\<close>

fun split_js :: "char \<Rightarrow> string \<Rightarrow> string list" where
  "split_js sep [] = [[]]"
| "split_js sep (c # cs) =
     (if c = sep then [] # split_js sep cs
      else (case split_js sep cs of
              [] \<Rightarrow> [[c]]
            | w # ws \<Rightarrow> (c # w) # ws))"

text \<open>\<^verbatim>\<open>xs[i]\<close>: undefined out of range.\<close>

definition indice :: "'a list \<Rightarrow> nat \<Rightarrow> 'a option" where
  "indice xs i = (if i < length xs then Some (xs ! i) else None)"

subsection \<open>Regular expressions\<close>

text \<open>
  The only regular expression of the handlers is
  \<^verbatim>\<open>/^[^\s@]+@[^\s@]+\.[^\s@]+$/\<close>. It is anchored at both ends, so \<^verbatim>\<open>test\<close> asks whether the
  whole string matches. Expressions are data and matching goes by derivatives.
  \<^verbatim>\<open>\s\<close> is the white space of the runtime: tab, line feed, vertical tab, form feed,
  carriage return, space and the no-break space.
\<close>

datatype classe = NaoEspacoNemArroba | Literal char

definition espaco :: "char \<Rightarrow> bool" where
  "espaco c = (c \<in> set [CHR 0x09, CHR 0x0A, CHR 0x0B, CHR 0x0C, CHR 0x0D, CHR 0x20, CHR 0xA0])"


datatype regex =
    Nada
  | Vazia
  | Atomo classe
  | Seq regex regex
  | Alt regex regex
  | Estrela regex

definition Mais :: "regex \<Rightarrow> regex" where
  "Mais r = Seq r (Estrela r)"




definition emailRegex :: regex where
  "emailRegex =
     Seq (Mais (Atomo NaoEspacoNemArroba))
       (Seq (Atomo (Literal (CHR ''@'')))
         (Seq (Mais (Atomo NaoEspacoNemArroba))
           (Seq (Atomo (Literal (CHR ''.'')))
                (Mais (Atomo NaoEspacoNemArroba)))))"

section \<open>External collaborators\<close>

text \<open>
  What a handler can catch. \<^verbatim>\<open>erro.name\<close> tells the two errors of the token codec apart;
  \<open>Erro\<close> stands for every other exception (a failed query, a refused signing).
\<close>

datatype excecao = Erro | JsonWebTokenError | TokenExpiredError

subsection \<open>Password hasher\<close>

text \<open>
  \<^verbatim>\<open>bcrypt.hash(data, saltRounds)\<close> and \<^verbatim>\<open>bcrypt.compare(data, encrypted)\<close> belong to a library
  outside the repository. The handlers take them as a parameter; nothing is assumed about
  them. On strings neither of them throws; \<^verbatim>\<open>bcrypt.hash\<close> refuses data that is not a string
  and throws.
\<close>

record bcrypt =
  hash :: "string \<Rightarrow> nat \<Rightarrow> string"
  compare :: "string \<Rightarrow> string \<Rightarrow> bool"

subsection \<open>Token codec\<close>

text \<open>
  The payload a token carries: the three fields \<^verbatim>\<open>/login\<close> puts there (\<^verbatim>\<open>id\<close>, \<^verbatim>\<open>nome\<close>,
  \<^verbatim>\<open>email\<close>) and the registered time fields, in seconds.
\<close>

record claims =
  c_id :: int
  c_nome :: string
  c_email :: string
  iat :: nat
  exp :: "nat option"

text \<open>
  A token string stands for a payload and the key it was signed with. How the pair is
  written as a string and read back (\<open>codificar\<close>, \<open>decodificar\<close>) and how a time span
  such as \<^verbatim>\<open>'8h'\<close> is read as milliseconds (\<open>ms\<close>) are parameters.
\<close>

record jwt =
  carga :: claims
  chave :: string

record codec =
  codificar :: "jwt \<Rightarrow> string"
  decodificar :: "string \<Rightarrow> jwt option"
  ms :: "string \<Rightarrow> nat option"

text \<open>
  Modelled from the spec: the Token Codec, which is the library \<^verbatim>\<open>jsonwebtoken\<close> and is not
  part of the sources. "Signs a claims payload into a compact, tamper-evident string with
  expiration": \<^verbatim>\<open>jwt.sign(payload, secret, { expiresIn })\<close> at time \<open>agora\<close> refuses a missing
  secret and a time span it cannot read, and otherwise issues the payload with
  \<^verbatim>\<open>iat = agora\<close> and \<^verbatim>\<open>exp = agora + span\<close>, signed with the secret.
\<close>

definition jwt_sign ::
  "codec \<Rightarrow> nat \<Rightarrow> int \<times> string \<times> string \<Rightarrow> string option \<Rightarrow> string \<Rightarrow> excecao + string" where
  "jwt_sign L agora payload secret expiresIn =
     (case payload of (i, n, e) \<Rightarrow>
        if \<not> truthy secret then Inl Erro
        else (case ms L expiresIn of
                None \<Rightarrow> Inl Erro
              | Some d \<Rightarrow>
                  Inr (codificar L
                    \<lparr> carga = \<lparr> c_id = i, c_nome = n, c_email = e, iat = agora,
                                exp = Some (agora + d div 1000) \<rparr>,
                      chave = texto secret \<rparr>)))"

text \<open>
  Modelled from the spec: the Token Codec again. "Verifies and decodes it":
  \<^verbatim>\<open>jwt.verify(token, secret)\<close> at time \<open>agora\<close> throws \<^verbatim>\<open>JsonWebTokenError\<close> for a string that
  is no token, for a missing secret and for a signature made with another key,
  \<^verbatim>\<open>TokenExpiredError\<close> from \<^verbatim>\<open>exp\<close> on, and otherwise returns the payload.
\<close>

definition jwt_verify :: "codec \<Rightarrow> nat \<Rightarrow> string \<Rightarrow> string option \<Rightarrow> excecao + claims" where
  "jwt_verify L agora token secret =
     (case decodificar L token of
        None \<Rightarrow> Inl JsonWebTokenError
      | Some j \<Rightarrow>
          if \<not> truthy secret then Inl JsonWebTokenError
          else if chave j \<noteq> texto secret then Inl JsonWebTokenError
          else if (case exp (carga j) of None \<Rightarrow> False | Some e \<Rightarrow> e \<le> agora)
            then Inl TokenExpiredError
          else Inr (carga j))"

subsection \<open>Process environment\<close>

text \<open>\<^verbatim>\<open>process.env.JWT_SECRET\<close> and \<^verbatim>\<open>process.env.JWT_EXPIRES_IN\<close>: a string, or undefined.\<close>

record env =
  JWT_SECRET :: "string option"
  JWT_EXPIRES_IN :: "string option"

subsection \<open>Credential store\<close>

text \<open>
  The table \<^verbatim>\<open>usuarios\<close> of the schema: \<^verbatim>\<open>id\<close> is generated, \<^verbatim>\<open>email\<close> is unique. The pool is
  the table, the next generated id, and whether the database answers: a query on a pool
  that does not answer throws.
\<close>

record usuario =
  ident :: int
  nome :: string
  email :: string
  senha :: string
  ativo :: bool

record pool =
  usuarios :: "usuario list"
  proximo_id :: int
  conectado :: bool

text \<open>
  \<^verbatim>\<open>SELECT id FROM usuarios WHERE email = $1\<close> and
  \<^verbatim>\<open>SELECT id, nome, email, senha, ativo FROM usuarios WHERE email = $1\<close>: the rows with
  that email (the first query reads only their number).
\<close>

definition select_por_email :: "pool \<Rightarrow> string \<Rightarrow> excecao + usuario list" where
  "select_por_email p e =
     (if conectado p then Inr (filter (\<lambda>u. email u = e) (usuarios p)) else Inl Erro)"

text \<open>\<^verbatim>\<open>SELECT senha FROM usuarios WHERE id = $1\<close>\<close>

definition select_senha_por_id :: "pool \<Rightarrow> int \<Rightarrow> excecao + string list" where
  "select_senha_por_id p i =
     (if conectado p then Inr (map senha (filter (\<lambda>u. ident u = i) (usuarios p)))
      else Inl Erro)"

text \<open>
  \<^verbatim>\<open>INSERT INTO usuarios (nome, email, senha, ativo) VALUES ($1, $2, $3, TRUE) RETURNING id\<close>:
  the unique constraint on \<^verbatim>\<open>email\<close> makes the insertion of a second row with the same
  email throw.
\<close>

definition insert_usuario :: "pool \<Rightarrow> string \<Rightarrow> string \<Rightarrow> string \<Rightarrow> (excecao + int) \<times> pool" where
  "insert_usuario p n e h =
     (if \<not> conectado p \<or> e \<in> email ` set (usuarios p) then (Inl Erro, p)
      else (Inr (proximo_id p),
            p\<lparr> usuarios := usuarios p @
                   [\<lparr> ident = proximo_id p, nome = n, email = e, senha = h, ativo = True \<rparr>],
               proximo_id := proximo_id p + 1 \<rparr>))"

text \<open>\<^verbatim>\<open>UPDATE usuarios SET senha = $1 WHERE id = $2\<close>\<close>

definition update_senha :: "pool \<Rightarrow> string \<Rightarrow> int \<Rightarrow> excecao + pool" where
  "update_senha p h i =
     (if conectado p
      then Inr (p\<lparr> usuarios := map (\<lambda>u. if ident u = i then u\<lparr> senha := h \<rparr> else u) (usuarios p) \<rparr>)
      else Inl Erro)"

section \<open>The authentication middleware\<close>

text \<open>
  \<^verbatim>\<open>autenticar\<close> of \<^verbatim>\<open>middleware/auth.js\<close>. First the token is looked for: in the cookie
  \<^verbatim>\<open>accessToken\<close>, and, when that gave none, in an \<^verbatim>\<open>Authorization\<close> header that starts with
  \<^verbatim>\<open>'Bearer '\<close>, as the second of the pieces between spaces.
\<close>

definition token_do_cookie :: "pedido \<Rightarrow> string option" where
  "token_do_cookie req =
     (case cookies req of
        None \<Rightarrow> None
      | Some c \<Rightarrow> if truthy (c ''accessToken'') then c ''accessToken'' else None)"

definition token_do_header :: "pedido \<Rightarrow> string option" where
  "token_do_header req =
     (let authHeader = headers req ''authorization'' in
      if truthy authHeader \<and> startsWith (texto authHeader) ''Bearer ''
      then indice (split_js (CHR '' '') (texto authHeader)) 1
      else None)"

definition extrair_token :: "pedido \<Rightarrow> string option" where
  "extrair_token req =
     (let token = token_do_cookie req in
      if \<not> truthy token then token_do_header req else token)"

text \<open>
  Then the token is verified with \<^verbatim>\<open>process.env.JWT_SECRET\<close>. \<open>Inr decoded\<close> is the call of
  \<^verbatim>\<open>next()\<close> with \<^verbatim>\<open>req.usuario = decoded\<close>; \<open>Inl\<close> is the response sent instead. The pool
  is not among the arguments: the middleware does not import it.
\<close>

definition autenticar :: "codec \<Rightarrow> env \<Rightarrow> nat \<Rightarrow> pedido \<Rightarrow> resposta + claims" where
  "autenticar L E agora req =
     (let token = extrair_token req in
      if \<not> truthy token then Inl (falha 401 (''Token n'' @ [a_til] @ ''o fornecido''))
      else (case jwt_verify L agora (texto token) (JWT_SECRET E) of
              Inr decoded \<Rightarrow> Inr decoded
            | Inl JsonWebTokenError \<Rightarrow> Inl (falha 401 (''Token inv'' @ [a_agudo] @ ''lido''))
            | Inl TokenExpiredError \<Rightarrow> Inl (falha 401 ''Token expirado'')
            | Inl _ \<Rightarrow> Inl (falha 401 ''Erro ao autenticar token'')))"

text \<open>
  A guarded route \<^verbatim>\<open>router.METHOD(path, autenticar, handler)\<close>: the handler runs only when
  the middleware called \<^verbatim>\<open>next()\<close>, and reads \<^verbatim>\<open>req.usuario\<close>.
\<close>

definition protegida ::
  "codec \<Rightarrow> env \<Rightarrow> nat \<Rightarrow> (claims \<Rightarrow> 's \<Rightarrow> pedido \<Rightarrow> resposta \<times> 's) \<Rightarrow> 's \<Rightarrow> pedido \<Rightarrow> resposta \<times> 's" where
  "protegida L E agora handler p req =
     (case autenticar L E agora req of
        Inl r \<Rightarrow> (r, p)
      | Inr u \<Rightarrow> handler u p req)"

section \<open>The handlers of \<^verbatim>\<open>routes/auth.js\<close>\<close>

subsection \<open>\<^verbatim>\<open>POST /registro\<close>\<close>

text \<open>
  The handler reads nothing of the request but \<^verbatim>\<open>req.body\<close>, which \<^verbatim>\<open>express.json()\<close> fills
  with whatever JSON the client sent: a field holds a string, a number, a boolean, null,
  an array or an object, or is absent (\<^verbatim>\<open>undefined\<close>, here \<open>None\<close>). Numbers are integers
  here; the handler only tests a number for zero, compares it and hands it on.

  \<^verbatim>\<open>!v\<close> is \<open>\<not> truthy_json v\<close>: undefined, null, false, zero and the empty string are falsy,
  every array and every object is truthy.
\<close>

fun truthy_json :: "json option \<Rightarrow> bool" where
  "truthy_json None = False"
| "truthy_json (Some JNull) = False"
| "truthy_json (Some (JBool b)) = b"
| "truthy_json (Some (JNum n)) = (n \<noteq> 0)"
| "truthy_json (Some (JStr s)) = (s \<noteq> [])"
| "truthy_json (Some (JArr xs)) = True"
| "truthy_json (Some (JObj kvs)) = True"

text \<open>
  \<^verbatim>\<open>a === b\<close> on two fields of a parsed body (\<^verbatim>\<open>a !== b\<close> is its negation): values of the
  same primitive type are compared by value; two arrays or objects are distinct objects
  and never equal; values of different types are never equal.
\<close>

fun igual_estrito :: "json option \<Rightarrow> json option \<Rightarrow> bool" where
  "igual_estrito None None = True"
| "igual_estrito (Some JNull) (Some JNull) = True"
| "igual_estrito (Some (JBool a)) (Some (JBool b)) = (a = b)"
| "igual_estrito (Some (JNum a)) (Some (JNum b)) = (a = b)"
| "igual_estrito (Some (JStr a)) (Some (JStr b)) = (a = b)"
| "igual_estrito _ _ = False"


text \<open>
  Where a value is needed as text, a string is taken as it is. How the runtime writes any
  other value as text for the regular expression (\<^verbatim>\<open>String(v)\<close>), and how the database
  driver writes it as a query parameter, are parameters; nothing is assumed about them.
\<close>

record conversao =
  String_js :: "json \<Rightarrow> string"
  prepareValue :: "json \<Rightarrow> string"




subsection \<open>\<^verbatim>\<open>POST /login\<close>\<close>

text \<open>
  Login only reads the pool. \<^verbatim>\<open>resultado.rows[0]\<close> is read after the check that there is a
  row. The time span of the token is \<^verbatim>\<open>process.env.JWT_EXPIRES_IN || '8h'\<close>.
\<close>

definition login :: "bcrypt \<Rightarrow> codec \<Rightarrow> env \<Rightarrow> nat \<Rightarrow> pool \<Rightarrow> pedido \<Rightarrow> resposta" where
  "login B L E agora p req =
     (let email' = body req ''email''; senha' = body req ''senha'' in
      if \<not> truthy email' \<or> \<not> truthy senha'
        then falha 400 (''Email e senha s'' @ [a_til] @ ''o obrigat'' @ [o_agudo] @ ''rios'')
      else (case select_por_email p (texto email') of
              Inl _ \<Rightarrow> falha 500 ''Erro ao fazer login''
            | Inr rows \<Rightarrow>
                (case rows of
                   [] \<Rightarrow> falha 401 ''Email ou senha incorretos''
                 | usuario # _ \<Rightarrow>
                     if \<not> ativo usuario
                       then falha 403 (''Usu'' @ [a_agudo] @ ''rio inativo. Entre em contato com o administrador'')
                     else if \<not> compare B (texto senha') (senha usuario)
                       then falha 401 ''Email ou senha incorretos''
                     else (case jwt_sign L agora (ident usuario, nome usuario, email usuario)
                                  (JWT_SECRET E)
                                  (if truthy (JWT_EXPIRES_IN E) then texto (JWT_EXPIRES_IN E) else ''8h'') of
                             Inl _ \<Rightarrow> falha 500 ''Erro ao fazer login''
                           | Inr token \<Rightarrow>
                               Resposta 200 (JObj
                                 [(''sucesso'', JBool True),
                                  (''mensagem'', JStr ''Login realizado com sucesso''),
                                  (''token'', JStr token),
                                  (''usuario'', JObj
                                     [(''id'', JNum (ident usuario)),
                                      (''nome'', JStr (nome usuario)),
                                      (''email'', JStr (email usuario))])])))))"

subsection \<open>\<^verbatim>\<open>PUT /alterar-senha\<close>\<close>

text \<open>
  The handler behind \<^verbatim>\<open>autenticar\<close>; \<open>usuario\<close> is \<^verbatim>\<open>req.usuario\<close>, the payload the
  middleware decoded.
\<close>

definition alterar_senha :: "bcrypt \<Rightarrow> claims \<Rightarrow> pool \<Rightarrow> pedido \<Rightarrow> resposta \<times> pool" where
  "alterar_senha B usuario p req =
     (let senhaAtual = body req ''senhaAtual''; novaSenha = body req ''novaSenha'';
          confirmarNovaSenha = body req ''confirmarNovaSenha'' in
      if \<not> truthy senhaAtual \<or> \<not> truthy novaSenha \<or> \<not> truthy confirmarNovaSenha
        then (falha 400 (''Todos os campos s'' @ [a_til] @ ''o obrigat'' @ [o_agudo] @ ''rios''), p)
      else if novaSenha \<noteq> confirmarNovaSenha
        then (falha 400 (''As novas senhas n'' @ [a_til] @ ''o conferem''), p)
      else if length (texto novaSenha) < 6
        then (falha 400 (''A nova senha deve ter no m'' @ [i_agudo] @ ''nimo 6 caracteres''), p)
      else (case select_senha_por_id p (c_id usuario) of
              Inl _ \<Rightarrow> (falha 500 ''Erro ao alterar senha'', p)
            | Inr rows \<Rightarrow>
                (case rows of
                   [] \<Rightarrow> (falha 404 (''Usu'' @ [a_agudo] @ ''rio n'' @ [a_til] @ ''o encontrado''), p)
                 | senhaGuardada # _ \<Rightarrow>
                     if \<not> compare B (texto senhaAtual) senhaGuardada
                       then (falha 401 ''Senha atual incorreta'', p)
                     else
                       (let saltRounds = 10;
                            novaSenhaHash = hash B (texto novaSenha) saltRounds in
                        case update_senha p novaSenhaHash (c_id usuario) of
                          Inl _ \<Rightarrow> (falha 500 ''Erro ao alterar senha'', p)
                        | Inr p' \<Rightarrow>
                            (Resposta 200 (JObj
                               [(''sucesso'', JBool True),
                                (''mensagem'', JStr ''Senha alterada com sucesso'')]), p')))))"

text \<open>\<^verbatim>\<open>router.put('/alterar-senha', autenticar, ...)\<close>\<close>

definition rota_alterar_senha ::
  "bcrypt \<Rightarrow> codec \<Rightarrow> env \<Rightarrow> nat \<Rightarrow> pool \<Rightarrow> pedido \<Rightarrow> resposta \<times> pool" where
  "rota_alterar_senha B L E agora p req = protegida L E agora (alterar_senha B) p req"

section \<open>The listings\<close>

text \<open>
  The three listings send one query and answer with its rows. What the database holds in
  \<^verbatim>\<open>contatos\<close> and \<^verbatim>\<open>empresas\<close> and how it filters and orders is outside the repository:
  \<^verbatim>\<open>pool.query(text, params)\<close> is a parameter that returns the rows or throws.
\<close>

type_synonym consulta = "string \<Rightarrow> string list \<Rightarrow> excecao + json list"

abbreviation nl :: char where "nl \<equiv> CHR 0x0A"

text \<open>\<^verbatim>\<open>GET /usuarios\<close> of \<^verbatim>\<open>routes/auth.js\<close>\<close>

definition listar_usuarios :: "consulta \<Rightarrow> pedido \<Rightarrow> resposta" where
  "listar_usuarios pool_query req =
     (let query' = [nl] @ ''      SELECT id, nome, email, ativo'' @ [nl]
                 @ ''      FROM usuarios'' @ [nl]
                 @ ''      ORDER BY nome ASC'' @ [nl] @ ''    '' in
      case pool_query query' [] of
        Inl _ \<Rightarrow> falha 500 (''Erro ao listar usu'' @ [a_agudo] @ ''rios'')
      | Inr rows \<Rightarrow>
          Resposta 200 (JObj
            [(''sucesso'', JBool True),
             (''total'', JNum (int (length rows))),
             (''dados'', JArr rows)]))"

text \<open>
  \<^verbatim>\<open>GET /\<close> of \<^verbatim>\<open>routes/contatos.js\<close>: the query text grows with the filters given;
  \<^verbatim>\<open>paramIndex\<close> numbers the placeholders.
\<close>

fun digitos :: "nat \<Rightarrow> string" where
  "digitos n =
     (if n < 10 then [char_of (48 + n)]
      else digitos (n div 10) @ [char_of (48 + n mod 10)])"

declare digitos.simps [simp del]

definition listar_contatos :: "consulta \<Rightarrow> pedido \<Rightarrow> resposta" where
  "listar_contatos pool_query req =
     (let tipo = query req ''tipo''; cidade = query req ''cidade'';
          q0 = ''SELECT * FROM contatos WHERE 1=1''; params0 = []; paramIndex0 = (1::nat);
          (q1, params1, paramIndex1) =
             (if truthy tipo
              then (q0 @ '' AND tipo = $'' @ digitos paramIndex0, params0 @ [texto tipo], paramIndex0 + 1)
              else (q0, params0, paramIndex0));
          (q2, params2, paramIndex2) =
             (if truthy cidade
              then (q1 @ '' AND cidade ILIKE $'' @ digitos paramIndex1,
                    params1 @ [''%'' @ texto cidade @ ''%''], paramIndex1 + 1)
              else (q1, params1, paramIndex1));
          q3 = q2 @ '' ORDER BY id DESC'' in
      case pool_query q3 params2 of
        Inl _ \<Rightarrow> falha 500 ''Erro ao buscar contatos''
      | Inr rows \<Rightarrow>
          Resposta 200 (JObj
            [(''sucesso'', JBool True),
             (''total'', JNum (int (length rows))),
             (''dados'', JArr rows)]))"

text \<open>\<^verbatim>\<open>GET /\<close> of \<^verbatim>\<open>routes/empresas.js\<close>\<close>

definition listar_empresas :: "consulta \<Rightarrow> pedido \<Rightarrow> resposta" where
  "listar_empresas pool_query req =
     (let query' = [nl] @ ''      SELECT id, titulo, nome, setor, cnpj, razao_social, email, telefone, '' @ [nl]
                 @ ''             localizacao, info, lucro, valor, faturamento, tipo, descricao,'' @ [nl]
                 @ ''             ano_fundacao, tempo_operacao, assinatura, funcionarios, area_imovel, '' @ [nl]
                 @ ''             tipo_imovel, motivo_venda, dif, img, ativo'' @ [nl]
                 @ ''      FROM empresas'' @ [nl]
                 @ ''      ORDER BY nome ASC'' @ [nl] @ ''    '' in
      case pool_query query' [] of
        Inl _ \<Rightarrow> falha 500 ''Erro ao listar empresas''
      | Inr rows \<Rightarrow>
          Resposta 200 (JObj
            [(''sucesso'', JBool True),
             (''dados'', JArr rows)]))"

text \<open>The three routes are guarded: \<^verbatim>\<open>router.get(path, autenticar, ...)\<close>.\<close>

definition rota_listagem ::
  "(consulta \<Rightarrow> pedido \<Rightarrow> resposta) \<Rightarrow> codec \<Rightarrow> env \<Rightarrow> nat \<Rightarrow> consulta \<Rightarrow> pedido \<Rightarrow> resposta" where
  "rota_listagem listar L E agora pool_query req =
     fst (protegida L E agora (\<lambda>usuario q r. (listar q r, q)) pool_query req)"

section \<open>The validation orders of the specification\<close>

text \<open>
  The specification gives the local checks of registration and of password change as
  ordered lists, "fail fast, first failing check wins". A check is a condition that must
  hold and the response sent when it does not; \<open>primeira_falha\<close> walks the list in order
  and returns the response of the first check that fails, \<open>None\<close> when all pass.
\<close>

fun primeira_falha :: "(bool \<times> 'e) list \<Rightarrow> 'e option" where
  "primeira_falha [] = None"
| "primeira_falha ((passa, e) # vs) = (if passa then primeira_falha vs else Some e)"

text \<open>
  Registration: (1) name, email and password all non-empty; (2) password equals
  confirmation; (3) password length at least 6; (4) email of the shape
  \<^verbatim>\<open>local@domain.tld\<close>. All four answer 400. A password that is not a string has no
  length, so it does not have length at least 6; a value that is not a string is not an
  email of that shape.
\<close>

fun texto_json :: "json option \<Rightarrow> string option" where
  "texto_json (Some (JStr s)) = Some s"
| "texto_json _ = None"


text \<open>
  The body the route declares in its OpenAPI annotation: each of the four fields is a
  string, or absent.
\<close>

definition campo_texto :: "json option \<Rightarrow> bool" where
  "campo_texto v = (v = None \<or> texto_json v \<noteq> None)"


text \<open>
  Password change: all three fields present; new password equals its confirmation; new
  password length at least 6. All three answer 400.
\<close>

definition verificacoes_alterar_senha :: "pedido \<Rightarrow> (bool \<times> resposta) list" where
  "verificacoes_alterar_senha req =
     [(truthy (body req ''senhaAtual'') \<and> truthy (body req ''novaSenha'')
         \<and> truthy (body req ''confirmarNovaSenha''),
         falha 400 (''Todos os campos s'' @ [a_til] @ ''o obrigat'' @ [o_agudo] @ ''rios'')),
      (body req ''novaSenha'' = body req ''confirmarNovaSenha'',
         falha 400 (''As novas senhas n'' @ [a_til] @ ''o conferem'')),
      (6 \<le> length (texto (body req ''novaSenha'')),
         falha 400 (''A nova senha deve ter no m'' @ [i_agudo] @ ''nimo 6 caracteres''))]"

section \<open>Sample inputs\<close>

text \<open>
  A request with nothing in it, a hasher that is easy to read, and a pool with an active
  and a deactivated account.
\<close>

definition pedido_vazio :: pedido where
  "pedido_vazio = \<lparr> cookies = None, headers = Map.empty, body = Map.empty, query = Map.empty \<rparr>"

definition bcrypt_exemplo :: bcrypt where
  "bcrypt_exemplo = \<lparr> hash = (\<lambda>s rounds. ''$2b$'' @ s), compare = (\<lambda>s h. h = ''$2b$'' @ s) \<rparr>"

definition pool_exemplo :: pool where
  "pool_exemplo =
     \<lparr> usuarios =
         [\<lparr> ident = 1, nome = ''Joao'', email = ''joao@x.com'', senha = ''$2b$abcdef'', ativo = True \<rparr>,
          \<lparr> ident = 2, nome = ''Maria'', email = ''maria@x.com'', senha = ''$2b$segredo'', ativo = False \<rparr>],
       proximo_id = 3,
       conectado = True \<rparr>"

text \<open>
  Registration bodies: one whose passwords differ, whose password is also too short and
  whose email is also malformed; a well-formed one for an email already in the pool; and
  one for that email whose password and confirmation are the number 12345. Conversions
  that write every value that is not a string as the empty text.
\<close>

definition registro_invalido :: "string \<rightharpoonup> json" where
  "registro_invalido =
     [''nome'' \<mapsto> JStr ''Ana'', ''email'' \<mapsto> JStr ''ana'', ''senha'' \<mapsto> JStr ''abc'',
      ''confirmarSenha'' \<mapsto> JStr ''abd'']"

definition registro_duplicado :: "string \<rightharpoonup> json" where
  "registro_duplicado =
     [''nome'' \<mapsto> JStr ''Joao'', ''email'' \<mapsto> JStr ''joao@x.com'', ''senha'' \<mapsto> JStr ''abcdef'',
      ''confirmarSenha'' \<mapsto> JStr ''abcdef'']"

definition registro_senha_numerica :: "string \<rightharpoonup> json" where
  "registro_senha_numerica =
     [''nome'' \<mapsto> JStr ''Joao'', ''email'' \<mapsto> JStr ''joao@x.com'', ''senha'' \<mapsto> JNum 12345,
      ''confirmarSenha'' \<mapsto> JNum 12345]"

definition conversao_exemplo :: conversao where
  "conversao_exemplo = \<lparr> String_js = (\<lambda>v. []), prepareValue = (\<lambda>v. []) \<rparr>"

text \<open>
  A token for the first account, issued at time 1000 for eight hours, a codec that writes
  and reads exactly that token, the environment with the secret that signed it and no
  \<^verbatim>\<open>JWT_EXPIRES_IN\<close>.
\<close>

definition jwt_exemplo :: jwt where
  "jwt_exemplo =
     \<lparr> carga = \<lparr> c_id = 1, c_nome = ''Joao'', c_email = ''joao@x.com'', iat = 1000,
                 exp = Some 29800 \<rparr>,
       chave = ''segredo-do-servidor'' \<rparr>"

definition codec_exemplo :: codec where
  "codec_exemplo =
     \<lparr> codificar = (\<lambda>j. if j = jwt_exemplo then ''tok.joao'' else ''tok.outro''),
       decodificar = (\<lambda>s. if s = ''tok.joao'' then Some jwt_exemplo else None),
       ms = (\<lambda>s. if s = ''8h'' then Some 28800000 else None) \<rparr>"

definition env_exemplo :: env where
  "env_exemplo = \<lparr> JWT_SECRET = Some ''segredo-do-servidor'', JWT_EXPIRES_IN = None \<rparr>"

text \<open>Login requests: an unknown email, a wrong password, the deactivated account, a good one.\<close>

definition login_desconhecido :: pedido where
  "login_desconhecido = pedido_vazio\<lparr> body := [''email'' \<mapsto> ''ninguem@x.com'', ''senha'' \<mapsto> ''abcdef''] \<rparr>"

definition login_senha_errada :: pedido where
  "login_senha_errada = pedido_vazio\<lparr> body := [''email'' \<mapsto> ''joao@x.com'', ''senha'' \<mapsto> ''errada''] \<rparr>"

definition login_inativa :: pedido where
  "login_inativa = pedido_vazio\<lparr> body := [''email'' \<mapsto> ''maria@x.com'', ''senha'' \<mapsto> ''segredo''] \<rparr>"

definition login_joao :: pedido where
  "login_joao = pedido_vazio\<lparr> body := [''email'' \<mapsto> ''joao@x.com'', ''senha'' \<mapsto> ''abcdef''] \<rparr>"

text \<open>Requests that carry a token: in the cookie and in the header, and in the header only.\<close>

definition cookie_e_header :: pedido where
  "cookie_e_header =
     pedido_vazio\<lparr> cookies := Some [''accessToken'' \<mapsto> ''tok.joao''],
                    headers := [''authorization'' \<mapsto> ''Bearer tok.outro''] \<rparr>"

definition so_header :: pedido where
  "so_header = pedido_vazio\<lparr> headers := [''authorization'' \<mapsto> ''Bearer tok.joao''] \<rparr>"

text \<open>Password changes of the first account, with the right and with a wrong current password.\<close>

definition troca_ok :: pedido where
  "troca_ok =
     pedido_vazio\<lparr> cookies := Some [''accessToken'' \<mapsto> ''tok.joao''],
                    body := [''senhaAtual'' \<mapsto> ''abcdef'', ''novaSenha'' \<mapsto> ''ghijkl'',
                             ''confirmarNovaSenha'' \<mapsto> ''ghijkl''] \<rparr>"

definition troca_senha_errada :: pedido where
  "troca_senha_errada =
     pedido_vazio\<lparr> cookies := Some [''accessToken'' \<mapsto> ''tok.joao''],
                    body := [''senhaAtual'' \<mapsto> ''errada'', ''novaSenha'' \<mapsto> ''ghijkl'',
                             ''confirmarNovaSenha'' \<mapsto> ''ghijkl''] \<rparr>"

text \<open>A database that answers every listing query with the same two rows.\<close>

definition consulta_exemplo :: consulta where
  "consulta_exemplo = (\<lambda>texto_sql params. Inr [JObj [(''id'', JNum 1)], JObj [(''id'', JNum 2)]])"

section \<open>Vocabulary of the statements\<close>

text \<open>A payload is not yet expired at a time when it has no \<^verbatim>\<open>exp\<close> or the time is before it.\<close>

definition nao_expirado :: "nat \<Rightarrow> claims \<Rightarrow> bool" where
  "nao_expirado agora c = (case exp c of None \<Rightarrow> True | Some e \<Rightarrow> agora < e)"

text \<open>
  Modelled from the spec: administrative deactivation, which no handler of the repository
  performs. "Mutated only by password-change (hash replaced) or administrative
  deactivation": the active flag of the account with that id is cleared in the table.
\<close>

definition desativar :: "int \<Rightarrow> pool \<Rightarrow> pool" where
  "desativar i p =
     p\<lparr> usuarios := map (\<lambda>u. if ident u = i then u\<lparr> ativo := False \<rparr> else u) (usuarios p) \<rparr>"

section \<open>Auxiliary facts\<close>

text \<open>The definitions that evaluating the handlers on the sample inputs unfolds.\<close>

lemmas avaliar =
  truthy_def texto_def falha_def pedido_vazio_def bcrypt_exemplo_def pool_exemplo_def
  emailRegex_def Mais_def espaco_def select_por_email_def select_senha_por_id_def
  insert_usuario_def update_senha_def

lemmas exemplos =
  jwt_exemplo_def codec_exemplo_def env_exemplo_def login_desconhecido_def
  login_senha_errada_def login_inativa_def login_joao_def cookie_e_header_def so_header_def
  troca_ok_def troca_senha_errada_def consulta_exemplo_def
  registro_invalido_def registro_duplicado_def registro_senha_numerica_def conversao_exemplo_def

lemmas extracao =
  autenticar_def extrair_token_def token_do_cookie_def token_do_header_def startsWith_def
  indice_def jwt_verify_def


lemma find_filter_None: "find P xs = None \<Longrightarrow> filter P xs = []"
  by (induction xs) (auto split: if_splits)

lemma find_filter_Some: "find P xs = Some u \<Longrightarrow> \<exists>rest. filter P xs = u # rest"
  by (induction xs) (auto split: if_splits)

text \<open>
  \<open>primeira_falha\<close> returns the response of a check exactly when that check fails and
  every check before it in the list passes: a later check never decides while an earlier
  one fails.
\<close>

lemma primeira_falha_Some:
  "primeira_falha vs = Some e \<longleftrightarrow>
     (\<exists>i < length vs. \<not> fst (vs ! i) \<and> snd (vs ! i) = e \<and> (\<forall>j < i. fst (vs ! j)))"
proof (induction vs)
  case Nil
  then show ?case by simp
next
  case (Cons v vs)
  obtain passa e' where v: "v = (passa, e')" by (cases v)
  show ?case
  proof (cases passa)
    case False
    show ?thesis
    proof
      assume "primeira_falha (v # vs) = Some e"
      with False v have "e' = e" by simp
      with False v have "0 < length (v # vs) \<and> \<not> fst ((v # vs) ! 0) \<and> snd ((v # vs) ! 0) = e
          \<and> (\<forall>j < 0. fst ((v # vs) ! j))" by simp
      then show "\<exists>i < length (v # vs). \<not> fst ((v # vs) ! i) \<and> snd ((v # vs) ! i) = e
          \<and> (\<forall>j < i. fst ((v # vs) ! j))" by (rule exI [of _ 0])
    next
      assume "\<exists>i < length (v # vs). \<not> fst ((v # vs) ! i) \<and> snd ((v # vs) ! i) = e
          \<and> (\<forall>j < i. fst ((v # vs) ! j))"
      then obtain i where i: "\<not> fst ((v # vs) ! i)" "snd ((v # vs) ! i) = e"
        "\<forall>j < i. fst ((v # vs) ! j)" by blast
      have "i = 0"
      proof (rule ccontr)
        assume "i \<noteq> 0"
        then have "0 < i" by simp
        with i(3) have "fst ((v # vs) ! 0)" by blast
        with False v show False by simp
      qed
      with i(2) v have "e' = e" by simp
      with False v show "primeira_falha (v # vs) = Some e" by simp
    qed
  next
    case True
    have "(\<exists>i < length (v # vs). \<not> fst ((v # vs) ! i) \<and> snd ((v # vs) ! i) = e
              \<and> (\<forall>j < i. fst ((v # vs) ! j)))
          \<longleftrightarrow> (\<exists>i < length vs. \<not> fst (vs ! i) \<and> snd (vs ! i) = e \<and> (\<forall>j < i. fst (vs ! j)))"
      (is "?L \<longleftrightarrow> ?R")
    proof
      assume ?L
      then obtain i where i: "i < length (v # vs)" "\<not> fst ((v # vs) ! i)"
        "snd ((v # vs) ! i) = e" "\<forall>j < i. fst ((v # vs) ! j)" by blast
      with True v obtain k where k: "i = Suc k" by (cases i) auto
      with i have "k < length vs" "\<not> fst (vs ! k)" "snd (vs ! k) = e" by auto
      moreover have "\<forall>j < k. fst (vs ! j)"
      proof (intro allI impI)
        fix j assume "j < k"
        then have "Suc j < i" using k by simp
        with i(4) have "fst ((v # vs) ! Suc j)" by blast
        then show "fst (vs ! j)" by simp
      qed
      ultimately show ?R by blast
    next
      assume ?R
      then obtain k where k: "k < length vs" "\<not> fst (vs ! k)" "snd (vs ! k) = e"
        "\<forall>j < k. fst (vs ! j)" by blast
      have "\<forall>j < Suc k. fst ((v # vs) ! j)"
      proof (intro allI impI)
        fix j assume "j < Suc k"
        then show "fst ((v # vs) ! j)" using k(4) True v by (cases j) auto
      qed
      with k show ?L by (intro exI [of _ "Suc k"]) auto
    qed
    with True v Cons.IH show ?thesis by simp
  qed
qed

lemma rota_listagem_casos:
  "rota_listagem listar L E agora q req =
     (case autenticar L E agora req of Inl r \<Rightarrow> r | Inr u \<Rightarrow> listar q req)"
  by (simp add: rota_listagem_def protegida_def split: sum.splits)

lemma autenticar_status: "autenticar L E agora req = Inl r \<Longrightarrow> status r = 401"
  by (auto simp add: autenticar_def falha_def Let_def split: if_splits sum.splits excecao.splits)

lemma autenticar_aceita:
  assumes "extrair_token req = Some t" and "t \<noteq> []"
      and "decodificar L t = Some j"
      and "JWT_SECRET E = Some (chave j)" and "chave j \<noteq> []"
      and "nao_expirado agora (carga j)"
  shows "autenticar L E agora req = Inr (carga j)"
  using assms
  by (auto simp add: autenticar_def jwt_verify_def truthy_def texto_def nao_expirado_def
        split: option.splits)

lemma login_200:
  assumes "login B L E agora p req = Resposta 200 b"
  shows "\<exists>(u::usuario) t. jwt_sign L agora (ident u, nome u, email u) (JWT_SECRET E)
                 (if truthy (JWT_EXPIRES_IN E) then texto (JWT_EXPIRES_IN E) else ''8h'') = Inr t
               \<and> campo b ''token'' = Some (JStr t)"
  using assms
  by (auto simp add: login_def falha_def Let_def split: if_splits sum.splits list.splits)

lemma listar_contatos_forma:
  "\<exists>sql params. listar_contatos q req =
     (case q sql params of
        Inl _ \<Rightarrow> falha 500 ''Erro ao buscar contatos''
      | Inr rows \<Rightarrow>
          Resposta 200 (JObj
            [(''sucesso'', JBool True),
             (''total'', JNum (int (length rows))),
             (''dados'', JArr rows)]))"
  by (cases "truthy (query req ''tipo'')"; cases "truthy (query req ''cidade'')";
      simp add: listar_contatos_def; (rule exI)+; rule refl)

lemma listar_contatos_200:
  assumes "status (listar_contatos q req) = 200"
  shows "\<exists>rows. corpo (listar_contatos q req) =
           JObj [(''sucesso'', JBool True), (''total'', JNum (int (length rows))), (''dados'', JArr rows)]"
proof -
  obtain sql params where
    f: "listar_contatos q req =
     (case q sql params of
        Inl _ \<Rightarrow> falha 500 ''Erro ao buscar contatos''
      | Inr rows \<Rightarrow>
          Resposta 200 (JObj
            [(''sucesso'', JBool True),
             (''total'', JNum (int (length rows))),
             (''dados'', JArr rows)]))"
    using listar_contatos_forma by blast
  show ?thesis
  proof (cases "q sql params")
    case (Inl e)
    with f assms show ?thesis by (simp add: falha_def)
  next
    case (Inr rows)
    with f show ?thesis by simp
  qed
qed

lemma alterar_senha_local:
  "primeira_falha (verificacoes_alterar_senha req) = Some r \<Longrightarrow> alterar_senha B u p req = (r, p)"
  by (auto simp add: verificacoes_alterar_senha_def alterar_senha_def Let_def split: if_splits)

lemma alterar_senha_passa:
  "primeira_falha (verificacoes_alterar_senha req) = None \<Longrightarrow>
     truthy (body req ''senhaAtual'') \<and> truthy (body req ''novaSenha'')
     \<and> truthy (body req ''confirmarNovaSenha'')
     \<and> body req ''novaSenha'' = body req ''confirmarNovaSenha''
     \<and> 6 \<le> length (texto (body req ''novaSenha''))
     \<and> 6 \<le> length (texto (body req ''confirmarNovaSenha''))"
  by (simp add: verificacoes_alterar_senha_def split: if_splits)

lemma alterar_senha_200:
  assumes "status (fst (alterar_senha B u p req)) = 200"
  shows "primeira_falha (verificacoes_alterar_senha req) = None \<and> conectado p
       \<and> (\<exists>x. find (\<lambda>x. ident x = c_id u) (usuarios p) = Some x
               \<and> compare B (texto (body req ''senhaAtual'')) (senha x))"
proof -
  have 1: "primeira_falha (verificacoes_alterar_senha req) = None"
  proof (cases "primeira_falha (verificacoes_alterar_senha req)")
    case None then show ?thesis .
  next
    case (Some r)
    then have "alterar_senha B u p req = (r, p)" by (rule alterar_senha_local)
    moreover from Some have "status r = 400"
      by (auto simp add: verificacoes_alterar_senha_def falha_def split: if_splits)
    ultimately show ?thesis using assms by simp
  qed
  note c = alterar_senha_passa [OF 1]
  have 2: "conectado p"
    using assms c
    by (cases "conectado p")
       (simp_all add: alterar_senha_def select_senha_por_id_def falha_def update_senha_def Let_def)
  show ?thesis
  proof (cases "find (\<lambda>x. ident x = c_id u) (usuarios p)")
    case None
    then have "filter (\<lambda>x. ident x = c_id u) (usuarios p) = []" by (rule find_filter_None)
    with assms c 2 show ?thesis
      by (simp add: alterar_senha_def select_senha_por_id_def falha_def Let_def)
  next
    case (Some x)
    then have "\<exists>rest. filter (\<lambda>x. ident x = c_id u) (usuarios p) = x # rest"
      by (rule find_filter_Some)
    then obtain rest where "filter (\<lambda>x. ident x = c_id u) (usuarios p) = x # rest" ..
    with assms c 2 have "compare B (texto (body req ''senhaAtual'')) (senha x)"
      by (cases "compare B (texto (body req ''senhaAtual'')) (senha x)")
         (simp_all add: alterar_senha_def select_senha_por_id_def falha_def update_senha_def Let_def)
    with 1 2 Some show ?thesis by simp
  qed
qed

text \<open>
  A value that is truthy and strictly equal to another one is a string, a non-zero number
  or \<^verbatim>\<open>true\<close>: nothing else reaches the length comparison of the registration handler.
\<close>

lemma valor_comparado:
  assumes "truthy_json v" and "igual_estrito v w"
  shows "(\<exists>s. v = Some (JStr s)) \<or> (\<exists>n. v = Some (JNum n)) \<or> v = Some (JBool True)"
proof (cases v)
  case None
  with assms show ?thesis by simp
next
  case (Some x)
  with assms show ?thesis by (cases x; cases w) auto
qed

lemma campo_texto_casos: "campo_texto v \<Longrightarrow> v = None \<or> (\<exists>s. v = Some (JStr s))"
proof (cases v)
  case None
  then show ?thesis by simp
next
  case (Some x)
  assume "campo_texto v"
  with Some show ?thesis by (cases x) (simp_all add: campo_texto_def)
qed

lemma igual_estrito_textos:
  "campo_texto v \<Longrightarrow> campo_texto w \<Longrightarrow> igual_estrito v w = (v = w)"
  by (auto dest!: campo_texto_casos)



section \<open>Registration\<close>




section \<open>Login\<close>

text \<open>
  C2. For every login request with a well-formed body (email and password both present
  and non-empty), on a store that answers: when no account has the email, and when the
  account with the email is active and the password does not verify against its hash,
  the response is the same 401 with the same message, \<^verbatim>\<open>'Email ou senha incorretos'\<close>.
\<close>

theorem login_falhas_indistinguiveis:
  assumes "truthy (body req ''email'')" and "truthy (body req ''senha'')" and "conectado p"
  shows "(find (\<lambda>u. email u = texto (body req ''email'')) (usuarios p) = None \<longrightarrow>
            login B L E agora p req = falha 401 ''Email ou senha incorretos'')
       \<and> (\<forall>u. find (\<lambda>u. email u = texto (body req ''email'')) (usuarios p) = Some u
              \<and> ativo u \<and> \<not> compare B (texto (body req ''senha'')) (senha u) \<longrightarrow>
            login B L E agora p req = falha 401 ''Email ou senha incorretos'')"
proof (intro conjI allI impI)
  assume "find (\<lambda>u. email u = texto (body req ''email'')) (usuarios p) = None"
  then have "filter (\<lambda>u. email u = texto (body req ''email'')) (usuarios p) = []"
    by (rule find_filter_None)
  with assms show "login B L E agora p req = falha 401 ''Email ou senha incorretos''"
    by (simp add: login_def select_por_email_def)
next
  fix u
  assume a: "find (\<lambda>u. email u = texto (body req ''email'')) (usuarios p) = Some u
              \<and> ativo u \<and> \<not> compare B (texto (body req ''senha'')) (senha u)"
  then have "\<exists>rest. filter (\<lambda>u. email u = texto (body req ''email'')) (usuarios p) = u # rest"
    by (simp add: find_filter_Some)
  then obtain rest where
    "filter (\<lambda>u. email u = texto (body req ''email'')) (usuarios p) = u # rest" ..
  with assms a show "login B L E agora p req = falha 401 ''Email ou senha incorretos''"
    by (simp add: login_def select_por_email_def)
qed


text \<open>
  An unknown email and a wrong password for the first account, on the sample pool.
\<close>

theorem login_falhas_indistinguiveis_witness:
  "truthy (body login_desconhecido ''email'') \<and> truthy (body login_desconhecido ''senha'')
   \<and> truthy (body login_senha_errada ''email'') \<and> truthy (body login_senha_errada ''senha'')
   \<and> conectado pool_exemplo
   \<and> find (\<lambda>u. email u = ''ninguem@x.com'') (usuarios pool_exemplo) = None
   \<and> login bcrypt_exemplo codec_exemplo env_exemplo 1000 pool_exemplo login_desconhecido
      = falha 401 ''Email ou senha incorretos''
   \<and> find (\<lambda>u. email u = ''joao@x.com'') (usuarios pool_exemplo)
      = Some \<lparr> ident = 1, nome = ''Joao'', email = ''joao@x.com'', senha = ''$2b$abcdef'', ativo = True \<rparr>
   \<and> \<not> compare bcrypt_exemplo ''errada'' ''$2b$abcdef''
   \<and> login bcrypt_exemplo codec_exemplo env_exemplo 1000 pool_exemplo login_senha_errada
      = falha 401 ''Email ou senha incorretos''"
  using login_falhas_indistinguiveis
          [of login_desconhecido pool_exemplo bcrypt_exemplo codec_exemplo env_exemplo 1000]
        login_falhas_indistinguiveis
          [of login_senha_errada pool_exemplo bcrypt_exemplo codec_exemplo env_exemplo 1000]
  by (simp add: avaliar exemplos)

text \<open>
  C3. For every login request that names a deactivated account (the account the lookup
  returns has its active flag off), the response is never a 401, whatever else the
  request and the pool are; and when the request carries both fields and the store
  answers, the response is the 403 with the message of the disabled account. The hasher
  \<open>B\<close> is arbitrary, so this holds when the password verifies: the flag is tested before
  \<^verbatim>\<open>bcrypt.compare\<close> is called.
\<close>

theorem login_conta_inativa:
  assumes "find (\<lambda>u. email u = texto (body req ''email'')) (usuarios p) = Some u"
      and "\<not> ativo u"
  shows "status (login B L E agora p req) \<noteq> 401
       \<and> (truthy (body req ''email'') \<and> truthy (body req ''senha'') \<and> conectado p \<longrightarrow>
            login B L E agora p req =
              falha 403 (''Usu'' @ [a_agudo] @ ''rio inativo. Entre em contato com o administrador''))"
proof -
  have "\<exists>rest. filter (\<lambda>u. email u = texto (body req ''email'')) (usuarios p) = u # rest"
    using assms(1) by (rule find_filter_Some)
  then obtain rest where
    f: "filter (\<lambda>u. email u = texto (body req ''email'')) (usuarios p) = u # rest" ..
  with assms(2) have "status (login B L E agora p req) \<noteq> 401"
    by (cases "conectado p") (simp_all add: login_def select_por_email_def falha_def Let_def)
  moreover from f assms(2)
  have "truthy (body req ''email'') \<and> truthy (body req ''senha'') \<and> conectado p \<longrightarrow>
            login B L E agora p req =
              falha 403 (''Usu'' @ [a_agudo] @ ''rio inativo. Entre em contato com o administrador'')"
    by (simp add: login_def select_por_email_def)
  ultimately show ?thesis by simp
qed

text \<open>The deactivated account of the sample pool, with its correct password.\<close>

theorem login_conta_inativa_witness:
  "find (\<lambda>u. email u = texto (body login_inativa ''email'')) (usuarios pool_exemplo)
     = Some \<lparr> ident = 2, nome = ''Maria'', email = ''maria@x.com'', senha = ''$2b$segredo'', ativo = False \<rparr>
   \<and> compare bcrypt_exemplo (texto (body login_inativa ''senha'')) ''$2b$segredo''
   \<and> truthy (body login_inativa ''email'') \<and> truthy (body login_inativa ''senha'')
   \<and> conectado pool_exemplo
   \<and> login bcrypt_exemplo codec_exemplo env_exemplo 1000 pool_exemplo login_inativa
      = falha 403 (''Usu'' @ [a_agudo] @ ''rio inativo. Entre em contato com o administrador'')
   \<and> status (login bcrypt_exemplo codec_exemplo env_exemplo 1000 pool_exemplo login_inativa) \<noteq> 401"
  using login_conta_inativa
          [of login_inativa pool_exemplo
              "\<lparr> ident = 2, nome = ''Maria'', email = ''maria@x.com'', senha = ''$2b$segredo'', ativo = False \<rparr>"
              bcrypt_exemplo codec_exemplo env_exemplo 1000]
  by (simp add: avaliar exemplos)

text \<open>
  C8, as the code has it. In login, the failure for an email not found and the failure
  for a wrong password on an active account return the same status, 401, and the same
  body, whose message is \<^verbatim>\<open>'Email ou senha incorretos'\<close>.
\<close>

theorem login_falhas_mesmo_codigo:
  assumes "truthy (body req1 ''email'')" and "truthy (body req1 ''senha'')"
      and "truthy (body req2 ''email'')" and "truthy (body req2 ''senha'')"
      and "conectado p"
      and "find (\<lambda>u. email u = texto (body req1 ''email'')) (usuarios p) = None"
      and "find (\<lambda>u. email u = texto (body req2 ''email'')) (usuarios p) = Some u"
      and "ativo u" and "\<not> compare B (texto (body req2 ''senha'')) (senha u)"
  shows "status (login B L E agora p req1) = 401
       \<and> status (login B L E agora p req2) = 401
       \<and> corpo (login B L E agora p req1) = corpo (login B L E agora p req2)
       \<and> campo (corpo (login B L E agora p req1)) ''mensagem'' = Some (JStr ''Email ou senha incorretos'')"
proof -
  have "filter (\<lambda>u. email u = texto (body req1 ''email'')) (usuarios p) = []"
    using assms(6) by (rule find_filter_None)
  with assms have 1: "login B L E agora p req1 = falha 401 ''Email ou senha incorretos''"
    by (simp add: login_def select_por_email_def)
  have "\<exists>rest. filter (\<lambda>u. email u = texto (body req2 ''email'')) (usuarios p) = u # rest"
    using assms(7) by (rule find_filter_Some)
  then obtain rest where
    "filter (\<lambda>u. email u = texto (body req2 ''email'')) (usuarios p) = u # rest" ..
  with assms have 2: "login B L E agora p req2 = falha 401 ''Email ou senha incorretos''"
    by (simp add: login_def select_por_email_def)
  from 1 2 show ?thesis by (simp add: falha_def)
qed

theorem login_falhas_mesmo_codigo_witness:
  "truthy (body login_desconhecido ''email'') \<and> truthy (body login_desconhecido ''senha'')
   \<and> truthy (body login_senha_errada ''email'') \<and> truthy (body login_senha_errada ''senha'')
   \<and> conectado pool_exemplo
   \<and> find (\<lambda>u. email u = texto (body login_desconhecido ''email'')) (usuarios pool_exemplo) = None
   \<and> find (\<lambda>u. email u = texto (body login_senha_errada ''email'')) (usuarios pool_exemplo)
      = Some \<lparr> ident = 1, nome = ''Joao'', email = ''joao@x.com'', senha = ''$2b$abcdef'', ativo = True \<rparr>
   \<and> \<not> compare bcrypt_exemplo (texto (body login_senha_errada ''senha'')) ''$2b$abcdef''
   \<and> corpo (login bcrypt_exemplo codec_exemplo env_exemplo 1000 pool_exemplo login_desconhecido)
      = corpo (login bcrypt_exemplo codec_exemplo env_exemplo 1000 pool_exemplo login_senha_errada)"
  using login_falhas_mesmo_codigo
          [of login_desconhecido login_senha_errada pool_exemplo
              "\<lparr> ident = 1, nome = ''Joao'', email = ''joao@x.com'', senha = ''$2b$abcdef'', ativo = True \<rparr>"
              bcrypt_exemplo codec_exemplo env_exemplo 1000]
  by (simp add: avaliar exemplos)

text \<open>
  C8 as stated asks for different response codes on the two paths. On the sample pool the
  unknown email and the wrong password are both answered with 401.
\<close>

theorem login_codigos_iguais_counterexample:
  "status (login bcrypt_exemplo codec_exemplo env_exemplo 1000 pool_exemplo login_desconhecido) = 401
   \<and> status (login bcrypt_exemplo codec_exemplo env_exemplo 1000 pool_exemplo login_senha_errada) = 401"
  by (simp add: login_def avaliar exemplos)

section \<open>Per-request verification\<close>

text \<open>
  C4. The middleware takes the token from the cookie \<^verbatim>\<open>accessToken\<close> when there is one (a
  non-empty value): that token is the one extracted, the request is treated the same
  whatever its headers are, and it is accepted exactly when the cookie token verifies.
  The \<^verbatim>\<open>Authorization\<close> header is consulted only when the cookie gave no token: then the
  token is the one of the header, and the cookies play no role.
\<close>

theorem autenticar_cookie_antes_do_header:
  "(\<forall>c t. cookies req = Some c \<and> c ''accessToken'' = Some t \<and> t \<noteq> [] \<longrightarrow>
      extrair_token req = Some t
      \<and> autenticar L E agora req = autenticar L E agora (req\<lparr> headers := h \<rparr>)
      \<and> (\<forall>d. autenticar L E agora req = Inr d \<longleftrightarrow> jwt_verify L agora t (JWT_SECRET E) = Inr d))
   \<and> (\<not> truthy (token_do_cookie req) \<longrightarrow>
        extrair_token req = token_do_header req
        \<and> autenticar L E agora req = autenticar L E agora (req\<lparr> cookies := None \<rparr>))"
  by (auto simp add: autenticar_def extrair_token_def token_do_cookie_def token_do_header_def
        truthy_def texto_def split: sum.splits excecao.splits)

text \<open>
  A request with the good token in the cookie and another token in the header is
  authenticated with the cookie token; a request with only the header uses the header.
\<close>

theorem autenticar_cookie_antes_do_header_witness:
  "cookies cookie_e_header = Some [''accessToken'' \<mapsto> ''tok.joao'']
   \<and> token_do_header cookie_e_header = Some ''tok.outro''
   \<and> extrair_token cookie_e_header = Some ''tok.joao''
   \<and> autenticar codec_exemplo env_exemplo 1060 cookie_e_header = Inr (carga jwt_exemplo)
   \<and> \<not> truthy (token_do_cookie so_header)
   \<and> extrair_token so_header = Some ''tok.joao''"
  using autenticar_cookie_antes_do_header
          [of cookie_e_header codec_exemplo env_exemplo 1060 "headers cookie_e_header"]
        autenticar_cookie_antes_do_header
          [of so_header codec_exemplo env_exemplo 1060 "headers so_header"]
  by (simp add: avaliar exemplos extracao)

text \<open>
  C5. Verification does not consult the Credential Store. For every token that reads as
  signed with the server secret and is not yet expired, the middleware accepts it with
  its payload, and a guarded route runs its handler with that payload in every state of
  the pool: in particular in the pool a password change leaves behind, and in the pool
  where the account of the token has been deactivated.
\<close>

theorem verificacao_sem_consulta_ao_store:
  assumes "extrair_token req = Some t" and "t \<noteq> []"
      and "decodificar L t = Some j"
      and "JWT_SECRET E = Some (chave j)" and "chave j \<noteq> []"
      and "nao_expirado agora (carga j)"
  shows "autenticar L E agora req = Inr (carga j)
       \<and> (\<forall>handler p. protegida L E agora handler p req = handler (carga j) p req)
       \<and> (\<forall>handler B p req'.
             protegida L E agora handler (snd (alterar_senha B (carga j) p req')) req
               = handler (carga j) (snd (alterar_senha B (carga j) p req')) req)
       \<and> (\<forall>handler p.
             protegida L E agora handler (desativar (c_id (carga j)) p) req
               = handler (carga j) (desativar (c_id (carga j)) p) req)"
proof -
  have "autenticar L E agora req = Inr (carga j)"
    using assms by (rule autenticar_aceita)
  then show ?thesis by (simp add: protegida_def)
qed

text \<open>
  After the first account of the sample pool is deactivated, its login is refused with
  403, and its token still passes the middleware and changes the password.
\<close>

theorem verificacao_sem_consulta_ao_store_witness:
  "extrair_token troca_ok = Some ''tok.joao''
   \<and> decodificar codec_exemplo ''tok.joao'' = Some jwt_exemplo
   \<and> JWT_SECRET env_exemplo = Some (chave jwt_exemplo)
   \<and> nao_expirado 2000 (carga jwt_exemplo)
   \<and> autenticar codec_exemplo env_exemplo 2000 troca_ok = Inr (carga jwt_exemplo)
   \<and> status (login bcrypt_exemplo codec_exemplo env_exemplo 2000
               (desativar 1 pool_exemplo) login_joao) = 403
   \<and> status (fst (protegida codec_exemplo env_exemplo 2000 (alterar_senha bcrypt_exemplo)
               (desativar 1 pool_exemplo) troca_ok)) = 200"
  using verificacao_sem_consulta_ao_store
          [of troca_ok "''tok.joao''" codec_exemplo jwt_exemplo env_exemplo 2000]
  by (simp add: avaliar exemplos extracao nao_expirado_def desativar_def
        login_def alterar_senha_def protegida_def)

text \<open>
  C6. Under the default configuration (no \<^verbatim>\<open>JWT_EXPIRES_IN\<close>), with \<^verbatim>\<open>'8h'\<close> read as eight
  hours and a token that reads back as what was signed: the token a successful login at
  time \<open>T\<close> returns is signed with the server secret, issued at \<open>T\<close> and expires at
  \<open>T\<close> plus 8 hours; the middleware accepts it one minute after \<open>T\<close> and rejects it as
  expired nine hours after \<open>T\<close>; more generally it accepts it at every time before the
  expiration and rejects it as expired from then on.
\<close>

theorem token_expira_em_8_horas:
  assumes "\<not> truthy (JWT_EXPIRES_IN E)"
      and "ms L ''8h'' = Some 28800000"
      and "login B L E T p req = Resposta 200 b"
      and "campo b ''token'' = Some (JStr t)"
      and "\<forall>j. codificar L j = t \<longrightarrow> decodificar L t = Some j"
      and "extrair_token req' = Some t" and "t \<noteq> []"
  shows "(\<exists>j. decodificar L t = Some j \<and> JWT_SECRET E = Some (chave j)
            \<and> iat (carga j) = T \<and> exp (carga j) = Some (T + 8 * 3600))
       \<and> (\<exists>c. autenticar L E (T + 60) req' = Inr c)
       \<and> autenticar L E (T + 9 * 3600) req' = Inl (falha 401 ''Token expirado'')
       \<and> (\<forall>agora. agora < T + 8 * 3600 \<longrightarrow> (\<exists>c. autenticar L E agora req' = Inr c))
       \<and> (\<forall>agora. T + 8 * 3600 \<le> agora \<longrightarrow>
             autenticar L E agora req' = Inl (falha 401 ''Token expirado''))"
proof -
  from login_200 [OF assms(3)] assms(4) obtain u :: usuario where
    s: "jwt_sign L T (ident u, nome u, email u) (JWT_SECRET E)
          (if truthy (JWT_EXPIRES_IN E) then texto (JWT_EXPIRES_IN E) else ''8h'') = Inr t"
    by auto
  define j where
    "j = \<lparr> carga = \<lparr> c_id = ident u, c_nome = nome u, c_email = email u, iat = T,
                    exp = Some (T + 28800) \<rparr>,
           chave = texto (JWT_SECRET E) \<rparr>"
  from s assms(1,2) have sec: "truthy (JWT_SECRET E)" and t: "codificar L j = t"
    by (auto simp add: jwt_sign_def j_def split: if_splits)
  from t assms(5) have d: "decodificar L t = Some j" by simp
  from sec have k: "JWT_SECRET E = Some (chave j)" "chave j \<noteq> []"
    by (auto simp add: j_def truthy_def texto_def split: option.splits)
  have c: "iat (carga j) = T" "exp (carga j) = Some (T + 28800)"
    by (simp_all add: j_def)
  have aceita: "autenticar L E agora req' = Inr (carga j)" if "agora < T + 28800" for agora
    using assms(6,7) d k c that
    by (simp add: autenticar_def jwt_verify_def truthy_def texto_def)
  have rejeita: "autenticar L E agora req' = Inl (falha 401 ''Token expirado'')"
    if "T + 28800 \<le> agora" for agora
    using assms(6,7) d k c that
    by (simp add: autenticar_def jwt_verify_def truthy_def texto_def)
  have "\<exists>j. decodificar L t = Some j \<and> JWT_SECRET E = Some (chave j)
            \<and> iat (carga j) = T \<and> exp (carga j) = Some (T + 8 * 3600)"
    using d k c by auto
  moreover have "\<exists>c. autenticar L E (T + 60) req' = Inr c"
    using aceita [of "T + 60"] by simp
  moreover have "autenticar L E (T + 9 * 3600) req' = Inl (falha 401 ''Token expirado'')"
    using rejeita [of "T + 9 * 3600"] by simp
  moreover have "\<forall>agora. agora < T + 8 * 3600 \<longrightarrow> (\<exists>c. autenticar L E agora req' = Inr c)"
    using aceita by simp
  moreover have "\<forall>agora. T + 8 * 3600 \<le> agora \<longrightarrow>
             autenticar L E agora req' = Inl (falha 401 ''Token expirado'')"
    using rejeita by simp
  ultimately show ?thesis by blast
qed

text \<open>
  The first account logs in at time 1000 on the sample pool; the token is accepted at
  1060 and rejected as expired at 33400.
\<close>

theorem token_expira_em_8_horas_witness:
  "\<not> truthy (JWT_EXPIRES_IN env_exemplo)
   \<and> ms codec_exemplo ''8h'' = Some 28800000
   \<and> login bcrypt_exemplo codec_exemplo env_exemplo 1000 pool_exemplo login_joao
      = Resposta 200 (JObj
          [(''sucesso'', JBool True),
           (''mensagem'', JStr ''Login realizado com sucesso''),
           (''token'', JStr ''tok.joao''),
           (''usuario'', JObj [(''id'', JNum 1), (''nome'', JStr ''Joao''), (''email'', JStr ''joao@x.com'')])])
   \<and> extrair_token troca_ok = Some ''tok.joao''
   \<and> autenticar codec_exemplo env_exemplo (1000 + 60) troca_ok = Inr (carga jwt_exemplo)
   \<and> autenticar codec_exemplo env_exemplo (1000 + 9 * 3600) troca_ok = Inl (falha 401 ''Token expirado'')"
  using token_expira_em_8_horas
          [where E = env_exemplo and L = codec_exemplo and B = bcrypt_exemplo and T = 1000
             and p = pool_exemplo and req = login_joao and t = "''tok.joao''" and req' = troca_ok
             and b = "JObj
          [(''sucesso'', JBool True),
           (''mensagem'', JStr ''Login realizado com sucesso''),
           (''token'', JStr ''tok.joao''),
           (''usuario'', JObj [(''id'', JNum 1), (''nome'', JStr ''Joao''), (''email'', JStr ''joao@x.com'')])]"]
  by (simp add: avaliar exemplos extracao login_def jwt_sign_def)

section \<open>Password change\<close>

text \<open>
  C7. For every authenticated password-change request (the middleware accepted it with
  payload \<open>u\<close>): a failing local check (all three fields present, new password equal to
  its confirmation, new password of length at least 6) decides the response and leaves
  the pool as it was; when they pass and the store answers, the supplied current password
  is verified against the stored hash of the caller, a mismatch is answered with 401, and
  a match makes the handler hash the new password and overwrite the stored hash of the
  caller's identity, and nothing else, answering 200. A 200 is returned only when the checks
  passed and the current password verified; without a 200 the pool is unchanged.
\<close>

theorem alterar_senha_algoritmo:
  assumes "autenticar L E agora req = Inr u"
  shows "(primeira_falha (verificacoes_alterar_senha req) = Some r \<longrightarrow>
            rota_alterar_senha B L E agora p req = (r, p))
       \<and> (\<forall>x. primeira_falha (verificacoes_alterar_senha req) = None \<and> conectado p
              \<and> find (\<lambda>x. ident x = c_id u) (usuarios p) = Some x
              \<and> \<not> compare B (texto (body req ''senhaAtual'')) (senha x) \<longrightarrow>
            fst (rota_alterar_senha B L E agora p req) = falha 401 ''Senha atual incorreta'')
       \<and> (\<forall>x. primeira_falha (verificacoes_alterar_senha req) = None \<and> conectado p
              \<and> find (\<lambda>x. ident x = c_id u) (usuarios p) = Some x
              \<and> compare B (texto (body req ''senhaAtual'')) (senha x) \<longrightarrow>
            rota_alterar_senha B L E agora p req =
              (Resposta 200 (JObj [(''sucesso'', JBool True),
                                   (''mensagem'', JStr ''Senha alterada com sucesso'')]),
               p\<lparr> usuarios :=
                    map (\<lambda>y. if ident y = c_id u
                              then y\<lparr> senha := hash B (texto (body req ''novaSenha'')) 10 \<rparr>
                              else y) (usuarios p) \<rparr>))
       \<and> (status (fst (rota_alterar_senha B L E agora p req)) = 200 \<longrightarrow>
            primeira_falha (verificacoes_alterar_senha req) = None
            \<and> (\<exists>x. find (\<lambda>x. ident x = c_id u) (usuarios p) = Some x
                    \<and> compare B (texto (body req ''senhaAtual'')) (senha x)))
       \<and> (status (fst (rota_alterar_senha B L E agora p req)) \<noteq> 200 \<longrightarrow>
            snd (rota_alterar_senha B L E agora p req) = p)"
proof -
  have rota: "rota_alterar_senha B L E agora p req = alterar_senha B u p req"
    using assms by (simp add: rota_alterar_senha_def protegida_def)
  have 1: "primeira_falha (verificacoes_alterar_senha req) = Some r \<longrightarrow>
            alterar_senha B u p req = (r, p)"
    by (simp add: alterar_senha_local)
  have 2: "fst (alterar_senha B u p req) = falha 401 ''Senha atual incorreta''"
    if "primeira_falha (verificacoes_alterar_senha req) = None" "conectado p"
       "find (\<lambda>x. ident x = c_id u) (usuarios p) = Some x"
       "\<not> compare B (texto (body req ''senhaAtual'')) (senha x)" for x
  proof -
    from that(3) have "\<exists>rest. filter (\<lambda>x. ident x = c_id u) (usuarios p) = x # rest"
      by (rule find_filter_Some)
    then obtain rest where "filter (\<lambda>x. ident x = c_id u) (usuarios p) = x # rest" ..
    with that alterar_senha_passa [OF that(1)] show ?thesis
      by (simp add: alterar_senha_def select_senha_por_id_def Let_def)
  qed
  have 3: "alterar_senha B u p req =
              (Resposta 200 (JObj [(''sucesso'', JBool True),
                                   (''mensagem'', JStr ''Senha alterada com sucesso'')]),
               p\<lparr> usuarios :=
                    map (\<lambda>y. if ident y = c_id u
                              then y\<lparr> senha := hash B (texto (body req ''novaSenha'')) 10 \<rparr>
                              else y) (usuarios p) \<rparr>)"
    if "primeira_falha (verificacoes_alterar_senha req) = None" "conectado p"
       "find (\<lambda>x. ident x = c_id u) (usuarios p) = Some x"
       "compare B (texto (body req ''senhaAtual'')) (senha x)" for x
  proof -
    from that(3) have "\<exists>rest. filter (\<lambda>x. ident x = c_id u) (usuarios p) = x # rest"
      by (rule find_filter_Some)
    then obtain rest where "filter (\<lambda>x. ident x = c_id u) (usuarios p) = x # rest" ..
    with that alterar_senha_passa [OF that(1)] show ?thesis
      by (simp add: alterar_senha_def select_senha_por_id_def update_senha_def Let_def)
  qed
  have 4: "status (fst (alterar_senha B u p req)) = 200 \<longrightarrow>
            primeira_falha (verificacoes_alterar_senha req) = None
            \<and> (\<exists>x. find (\<lambda>x. ident x = c_id u) (usuarios p) = Some x
                    \<and> compare B (texto (body req ''senhaAtual'')) (senha x))"
    using alterar_senha_200 [of B u p req] by blast
  have 5: "status (fst (alterar_senha B u p req)) \<noteq> 200 \<longrightarrow> snd (alterar_senha B u p req) = p"
    by (auto simp add: alterar_senha_def update_senha_def select_senha_por_id_def falha_def Let_def
          split: if_splits list.splits)
  from 1 2 3 4 5 show ?thesis unfolding rota by blast
qed

text \<open>
  The first account of the sample pool changes its password with its token: only its
  hash is replaced.
\<close>

theorem alterar_senha_algoritmo_witness:
  "autenticar codec_exemplo env_exemplo 2000 troca_ok = Inr (carga jwt_exemplo)
   \<and> primeira_falha (verificacoes_alterar_senha troca_ok) = None
   \<and> conectado pool_exemplo
   \<and> find (\<lambda>x. ident x = c_id (carga jwt_exemplo)) (usuarios pool_exemplo)
      = Some \<lparr> ident = 1, nome = ''Joao'', email = ''joao@x.com'', senha = ''$2b$abcdef'', ativo = True \<rparr>
   \<and> compare bcrypt_exemplo (texto (body troca_ok ''senhaAtual'')) ''$2b$abcdef''
   \<and> rota_alterar_senha bcrypt_exemplo codec_exemplo env_exemplo 2000 pool_exemplo troca_ok
      = (Resposta 200 (JObj [(''sucesso'', JBool True),
                             (''mensagem'', JStr ''Senha alterada com sucesso'')]),
         pool_exemplo\<lparr> usuarios :=
           [\<lparr> ident = 1, nome = ''Joao'', email = ''joao@x.com'', senha = ''$2b$ghijkl'', ativo = True \<rparr>,
            \<lparr> ident = 2, nome = ''Maria'', email = ''maria@x.com'', senha = ''$2b$segredo'', ativo = False \<rparr>] \<rparr>)"
  using alterar_senha_algoritmo
          [where L = codec_exemplo and E = env_exemplo and agora = 2000 and req = troca_ok
             and u = "carga jwt_exemplo" and B = bcrypt_exemplo and p = pool_exemplo]
  by (simp add: avaliar exemplos extracao verificacoes_alterar_senha_def)

text \<open>
  C10. For every authenticated password-change request that passes the local field
  checks, on a store that answers, whose supplied current password does not verify
  against the stored hash of the caller: the response is the 401 and the pool is returned
  exactly as it was, so the stored hash of that identity is the one it was before.
\<close>

theorem alterar_senha_atomica:
  assumes "autenticar L E agora req = Inr u"
      and "primeira_falha (verificacoes_alterar_senha req) = None"
      and "conectado p"
      and "find (\<lambda>x. ident x = c_id u) (usuarios p) = Some x"
      and "\<not> compare B (texto (body req ''senhaAtual'')) (senha x)"
  shows "rota_alterar_senha B L E agora p req = (falha 401 ''Senha atual incorreta'', p)
       \<and> select_senha_por_id (snd (rota_alterar_senha B L E agora p req)) (c_id u)
           = select_senha_por_id p (c_id u)
       \<and> usuarios (snd (rota_alterar_senha B L E agora p req)) = usuarios p"
proof -
  have rota: "rota_alterar_senha B L E agora p req = alterar_senha B u p req"
    using assms(1) by (simp add: rota_alterar_senha_def protegida_def)
  from assms(4) have "\<exists>rest. filter (\<lambda>x. ident x = c_id u) (usuarios p) = x # rest"
    by (rule find_filter_Some)
  then obtain rest where "filter (\<lambda>x. ident x = c_id u) (usuarios p) = x # rest" ..
  with assms alterar_senha_passa [OF assms(2)]
  have "alterar_senha B u p req = (falha 401 ''Senha atual incorreta'', p)"
    by (simp add: alterar_senha_def select_senha_por_id_def Let_def)
  with rota show ?thesis by simp
qed

text \<open>The same account with a wrong current password: 401, and the sample pool as it was.\<close>

theorem alterar_senha_atomica_witness:
  "autenticar codec_exemplo env_exemplo 2000 troca_senha_errada = Inr (carga jwt_exemplo)
   \<and> primeira_falha (verificacoes_alterar_senha troca_senha_errada) = None
   \<and> conectado pool_exemplo
   \<and> find (\<lambda>x. ident x = c_id (carga jwt_exemplo)) (usuarios pool_exemplo)
      = Some \<lparr> ident = 1, nome = ''Joao'', email = ''joao@x.com'', senha = ''$2b$abcdef'', ativo = True \<rparr>
   \<and> \<not> compare bcrypt_exemplo (texto (body troca_senha_errada ''senhaAtual'')) ''$2b$abcdef''
   \<and> rota_alterar_senha bcrypt_exemplo codec_exemplo env_exemplo 2000 pool_exemplo troca_senha_errada
      = (falha 401 ''Senha atual incorreta'', pool_exemplo)"
  using alterar_senha_atomica
          [where L = codec_exemplo and E = env_exemplo and agora = 2000 and req = troca_senha_errada
             and u = "carga jwt_exemplo" and B = bcrypt_exemplo and p = pool_exemplo
             and x = "\<lparr> ident = 1, nome = ''Joao'', email = ''joao@x.com'', senha = ''$2b$abcdef'', ativo = True \<rparr>"]
  by (simp add: avaliar exemplos extracao verificacoes_alterar_senha_def)

section \<open>Listings\<close>

text \<open>
  C9, as the code has it. Every successful response of the user listing and of the
  contact listing carries the count field \<^verbatim>\<open>total\<close>, the number of rows, alongside the data
  array \<^verbatim>\<open>dados\<close>; every successful response of the company listing carries the success
  flag and the data array only.
\<close>

theorem listagens_campo_total:
  "(status (rota_listagem listar_usuarios L E agora q req) = 200 \<longrightarrow>
      (\<exists>rows. corpo (rota_listagem listar_usuarios L E agora q req) =
         JObj [(''sucesso'', JBool True), (''total'', JNum (int (length rows))), (''dados'', JArr rows)]))
   \<and> (status (rota_listagem listar_contatos L E agora q req) = 200 \<longrightarrow>
      (\<exists>rows. corpo (rota_listagem listar_contatos L E agora q req) =
         JObj [(''sucesso'', JBool True), (''total'', JNum (int (length rows))), (''dados'', JArr rows)]))
   \<and> (status (rota_listagem listar_empresas L E agora q req) = 200 \<longrightarrow>
      (\<exists>rows. corpo (rota_listagem listar_empresas L E agora q req) =
         JObj [(''sucesso'', JBool True), (''dados'', JArr rows)]))"
proof (intro conjI impI)
  assume a: "status (rota_listagem listar_usuarios L E agora q req) = 200"
  then show "\<exists>rows. corpo (rota_listagem listar_usuarios L E agora q req) =
         JObj [(''sucesso'', JBool True), (''total'', JNum (int (length rows))), (''dados'', JArr rows)]"
    by (auto simp add: rota_listagem_casos listar_usuarios_def falha_def Let_def
          dest: autenticar_status split: sum.splits)
next
  assume a: "status (rota_listagem listar_contatos L E agora q req) = 200"
  then show "\<exists>rows. corpo (rota_listagem listar_contatos L E agora q req) =
         JObj [(''sucesso'', JBool True), (''total'', JNum (int (length rows))), (''dados'', JArr rows)]"
    by (auto simp add: rota_listagem_casos dest: autenticar_status listar_contatos_200
          split: sum.splits)
next
  assume a: "status (rota_listagem listar_empresas L E agora q req) = 200"
  then show "\<exists>rows. corpo (rota_listagem listar_empresas L E agora q req) =
         JObj [(''sucesso'', JBool True), (''dados'', JArr rows)]"
    by (auto simp add: rota_listagem_casos listar_empresas_def falha_def Let_def
          dest: autenticar_status split: sum.splits)
qed

text \<open>The three listings with a valid token, on a database that returns two rows.\<close>

theorem listagens_campo_total_witness:
  "status (rota_listagem listar_usuarios codec_exemplo env_exemplo 1060 consulta_exemplo so_header) = 200
   \<and> campo (corpo (rota_listagem listar_usuarios codec_exemplo env_exemplo 1060 consulta_exemplo so_header)) ''total''
      = Some (JNum 2)
   \<and> status (rota_listagem listar_contatos codec_exemplo env_exemplo 1060 consulta_exemplo so_header) = 200
   \<and> campo (corpo (rota_listagem listar_contatos codec_exemplo env_exemplo 1060 consulta_exemplo so_header)) ''total''
      = Some (JNum 2)
   \<and> status (rota_listagem listar_empresas codec_exemplo env_exemplo 1060 consulta_exemplo so_header) = 200
   \<and> campos (corpo (rota_listagem listar_empresas codec_exemplo env_exemplo 1060 consulta_exemplo so_header))
      = [''sucesso'', ''dados'']"
  using listagens_campo_total [of codec_exemplo env_exemplo 1060 consulta_exemplo so_header]
  by (simp add: rota_listagem_casos listar_usuarios_def listar_contatos_def listar_empresas_def
        avaliar exemplos extracao)

text \<open>
  C9 as stated asks for a count field in the company listing too. With a valid token and
  a database that returns two rows, the company listing answers 200 and its body has no
  field \<^verbatim>\<open>total\<close>.
\<close>

theorem listar_empresas_sem_total_counterexample:
  "status (rota_listagem listar_empresas codec_exemplo env_exemplo 1060 consulta_exemplo so_header) = 200
   \<and> campo (corpo (rota_listagem listar_empresas codec_exemplo env_exemplo 1060 consulta_exemplo so_header)) ''total''
      = None"
  by (simp add: rota_listagem_casos listar_empresas_def avaliar exemplos extracao)

end
